theory Spec2Isabelle
  imports Main "HOL-Library.Sublist"
begin

section \<open>Values of the data files\<close>

text \<open>
  \<^verbatim>\<open>load_json\<close> returns what \<^verbatim>\<open>json.load\<close> parses, so a field of a record holds any
  JSON value. A float is held as the text Python prints for it (\<^verbatim>\<open>str(x)\<close>): the program
  only prints floats and tests them for truth. A dict is an association list in insertion
  order, read with \<open>map_of\<close>. Characters are code points below 128: \<^verbatim>\<open>lower\<close> and
  \<^verbatim>\<open>upper\<close> change the letters A-Z and a-z only.
\<close>

datatype json =
    JNull
  | JBool bool
  | JInt int
  | JFloat string
  | JStr string
  | JList "json list"
  | JObj "(string \<times> json) list"

type_synonym pydict = "(string \<times> json) list"

text \<open>The exceptions the program can raise; \<open>HTTPException\<close> is the one it raises itself.\<close>

datatype error =
    KeyError string
  | TypeError
  | AttributeError
  | HTTPException nat string

definition bind :: "error + 'a \<Rightarrow> ('a \<Rightarrow> error + 'b) \<Rightarrow> error + 'b" where
  "bind m f = (case m of Inl e \<Rightarrow> Inl e | Inr v \<Rightarrow> f v)"

fun mapM :: "('a \<Rightarrow> error + 'b) \<Rightarrow> 'a list \<Rightarrow> error + 'b list" where
  "mapM f [] = Inr []"
| "mapM f (x # xs) = bind (f x) (\<lambda>y. bind (mapM f xs) (\<lambda>ys. Inr (y # ys)))"

definition nl :: string where
  "nl = [CHR 0x0A]"

subsection \<open>Strings\<close>

definition char_lower :: "char \<Rightarrow> char" where
  "char_lower c =
     (case map_of (zip ''ABCDEFGHIJKLMNOPQRSTUVWXYZ'' ''abcdefghijklmnopqrstuvwxyz'') c of
        Some d \<Rightarrow> d | None \<Rightarrow> c)"

definition char_upper :: "char \<Rightarrow> char" where
  "char_upper c =
     (case map_of (zip ''abcdefghijklmnopqrstuvwxyz'' ''ABCDEFGHIJKLMNOPQRSTUVWXYZ'') c of
        Some d \<Rightarrow> d | None \<Rightarrow> c)"

definition lower :: "string \<Rightarrow> string" where
  "lower s = map char_lower s"

definition upper :: "string \<Rightarrow> string" where
  "upper s = map char_upper s"

text \<open>\<^verbatim>\<open>s.replace(a, b)\<close> for one-character \<open>a\<close> and \<open>b\<close>.\<close>

definition replace_char :: "char \<Rightarrow> char \<Rightarrow> string \<Rightarrow> string" where
  "replace_char a b s = map (\<lambda>c. if c = a then b else c) s"

text \<open>\<^verbatim>\<open>sep.join(xs)\<close> for a list of strings.\<close>

fun join :: "string \<Rightarrow> string list \<Rightarrow> string" where
  "join sep [] = []"
| "join sep [x] = x"
| "join sep (x # y # ys) = x @ sep @ join sep (y # ys)"

text \<open>\<^verbatim>\<open>str(n)\<close> for an integer.\<close>

fun digits :: "nat \<Rightarrow> string" where
  "digits n = (if n < 10 then [''0123456789'' ! n]
               else digits (n div 10) @ [''0123456789'' ! (n mod 10)])"

declare digits.simps [simp del]

definition str_int :: "int \<Rightarrow> string" where
  "str_int i = (if i < 0 then ''-'' @ digits (nat (- i)) else digits (nat i))"

text \<open>
  \<^verbatim>\<open>repr(s)\<close> for a string: double quotes when the text holds a single quote and no
  double quote, single quotes otherwise; the quote and the backslash are escaped, so are
  tab, newline, carriage return and the other control characters.
\<close>

definition hex2 :: "nat \<Rightarrow> string" where
  "hex2 n = [''0123456789abcdef'' ! (n div 16 mod 16), ''0123456789abcdef'' ! (n mod 16)]"

definition repr_char :: "char \<Rightarrow> char \<Rightarrow> string" where
  "repr_char quote c =
     (if c = quote \<or> c = CHR 0x5C then [CHR 0x5C, c]
      else if c = CHR 0x09 then [CHR 0x5C, CHR ''t'']
      else if c = CHR 0x0A then [CHR 0x5C, CHR ''n'']
      else if c = CHR 0x0D then [CHR 0x5C, CHR ''r'']
      else if (of_char c :: nat) < 32 \<or> (of_char c :: nat) = 127
        then [CHR 0x5C, CHR ''x''] @ hex2 (of_char c)
      else [c])"

definition repr_str :: "string \<Rightarrow> string" where
  "repr_str s =
     (let quote = (if CHR 0x27 \<in> set s \<and> CHR 0x22 \<notin> set s then CHR 0x22 else CHR 0x27)
      in [quote] @ concat (map (repr_char quote) s) @ [quote])"

subsection \<open>The operations of Python on a JSON value\<close>

text \<open>\<^verbatim>\<open>repr(v)\<close>, which is also \<^verbatim>\<open>str(v)\<close> for everything but a string.\<close>

fun repr :: "json \<Rightarrow> string" where
  "repr JNull = ''None''"
| "repr (JBool b) = (if b then ''True'' else ''False'')"
| "repr (JInt i) = str_int i"
| "repr (JFloat s) = s"
| "repr (JStr s) = repr_str s"
| "repr (JList xs) = ''['' @ join '', '' (map repr xs) @ '']''"
| "repr (JObj kvs) =
     ''{'' @ join '', '' (map (\<lambda>kv. repr_str (fst kv) @ '': '' @ repr (snd kv)) kvs) @ ''}''"

text \<open>What an f-string puts for \<^verbatim>\<open>{v}\<close>.\<close>

definition str :: "json \<Rightarrow> string" where
  "str v = (case v of JStr s \<Rightarrow> s | _ \<Rightarrow> repr v)"

text \<open>\<^verbatim>\<open>bool(v)\<close>, the test of \<^verbatim>\<open>if v:\<close>.\<close>

definition truthy :: "json \<Rightarrow> bool" where
  "truthy v =
     (case v of
        JNull \<Rightarrow> False
      | JBool b \<Rightarrow> b
      | JInt i \<Rightarrow> i \<noteq> 0
      | JFloat s \<Rightarrow> s \<noteq> ''0.0'' \<and> s \<noteq> ''-0.0''
      | JStr s \<Rightarrow> s \<noteq> []
      | JList xs \<Rightarrow> xs \<noteq> []
      | JObj kvs \<Rightarrow> kvs \<noteq> [])"

text \<open>\<^verbatim>\<open>d.get(k)\<close>, \<^verbatim>\<open>d.get(k, default)\<close> and \<^verbatim>\<open>d[k]\<close> on a dict.\<close>

definition get :: "pydict \<Rightarrow> string \<Rightarrow> json" where
  "get d k = (case map_of d k of None \<Rightarrow> JNull | Some v \<Rightarrow> v)"

definition get_or :: "pydict \<Rightarrow> string \<Rightarrow> json \<Rightarrow> json" where
  "get_or d k dflt = (case map_of d k of None \<Rightarrow> dflt | Some v \<Rightarrow> v)"

definition getitem :: "pydict \<Rightarrow> string \<Rightarrow> error + json" where
  "getitem d k = (case map_of d k of None \<Rightarrow> Inl (KeyError k) | Some v \<Rightarrow> Inr v)"

text \<open>The same on a value that need not be a dict.\<close>

definition json_get :: "json \<Rightarrow> string \<Rightarrow> error + json" where
  "json_get v k = (case v of JObj d \<Rightarrow> Inr (get d k) | _ \<Rightarrow> Inl AttributeError)"


definition json_items :: "json \<Rightarrow> error + (string \<times> json) list" where
  "json_items v = (case v of JObj d \<Rightarrow> Inr d | _ \<Rightarrow> Inl AttributeError)"

text \<open>\<^verbatim>\<open>for x in v\<close>: the elements of a list, the characters of a string, the keys of a dict.\<close>

definition iter :: "json \<Rightarrow> error + json list" where
  "iter v =
     (case v of
        JList xs \<Rightarrow> Inr xs
      | JStr s \<Rightarrow> Inr (map (\<lambda>c. JStr [c]) s)
      | JObj d \<Rightarrow> Inr (map (\<lambda>kv. JStr (fst kv)) d)
      | _ \<Rightarrow> Inl TypeError)"

text \<open>\<^verbatim>\<open>sep.join(v)\<close>: every element must be a string.\<close>

definition the_str :: "json \<Rightarrow> error + string" where
  "the_str v = (case v of JStr s \<Rightarrow> Inr s | _ \<Rightarrow> Inl TypeError)"

definition join_json :: "string \<Rightarrow> json \<Rightarrow> error + string" where
  "join_json sep v = bind (iter v) (\<lambda>xs. bind (mapM the_str xs) (\<lambda>ss. Inr (join sep ss)))"

text \<open>\<^verbatim>\<open>q in v\<close> for a string \<open>q\<close>.\<close>

definition contains :: "string \<Rightarrow> json \<Rightarrow> error + bool" where
  "contains q v =
     (case v of
        JStr s \<Rightarrow> Inr (sublist q s)
      | JList xs \<Rightarrow> Inr (JStr q \<in> set xs)
      | JObj d \<Rightarrow> Inr (q \<in> fst ` set d)
      | _ \<Rightarrow> Inl TypeError)"

text \<open>\<^verbatim>\<open>v.lower()\<close>.\<close>

definition json_lower :: "json \<Rightarrow> error + string" where
  "json_lower v = (case v of JStr s \<Rightarrow> Inr (lower s) | _ \<Rightarrow> Inl AttributeError)"

section \<open>Search helper\<close>

text \<open>The inner loop of \<^verbatim>\<open>search_items\<close> over the elements of a list-valued field.\<close>

fun score_elems :: "string \<Rightarrow> json list \<Rightarrow> nat \<Rightarrow> nat" where
  "score_elems query_lower [] score = score"
| "score_elems query_lower (v # vs) score =
     score_elems query_lower vs
       (case v of
          JStr s \<Rightarrow> if sublist query_lower (lower s) then score + 1 else score
        | _ \<Rightarrow> score)"

text \<open>The loop over \<^verbatim>\<open>fields\<close>.\<close>

fun score_fields :: "string \<Rightarrow> pydict \<Rightarrow> string list \<Rightarrow> nat \<Rightarrow> nat" where
  "score_fields query_lower item [] score = score"
| "score_fields query_lower item (field # fields) score =
     score_fields query_lower item fields
       (case get_or item field (JStr '''') of
          JStr s \<Rightarrow> if sublist query_lower (lower s) then score + 1 else score
        | JList vs \<Rightarrow> score_elems query_lower vs score
        | _ \<Rightarrow> score)"

text \<open>The loop over \<^verbatim>\<open>items\<close>, appending to \<^verbatim>\<open>results\<close>.\<close>

fun score_items ::
  "string \<Rightarrow> string list \<Rightarrow> pydict list \<Rightarrow> (nat \<times> pydict) list \<Rightarrow> (nat \<times> pydict) list" where
  "score_items query_lower fields [] results = results"
| "score_items query_lower fields (item # items) results =
     (let score = score_fields query_lower item fields 0
      in score_items query_lower fields items
           (if score > 0 then results @ [(score, item)] else results))"

text \<open>
  \<^verbatim>\<open>results.sort(key=lambda x: x[0], reverse=True)\<close>: Python reverses the list, sorts it
  with its stable ascending sort, and reverses the result.
\<close>

definition sort_reverse :: "(nat \<times> pydict) list \<Rightarrow> (nat \<times> pydict) list" where
  "sort_reverse results = rev (sort_key fst (rev results))"

definition search_items :: "pydict list \<Rightarrow> string \<Rightarrow> string list \<Rightarrow> pydict list" where
  "search_items items query fields =
     (if query = [] then take 10 items
      else
        let query_lower = lower query;
            results = sort_reverse (score_items query_lower fields items [])
        in map snd (take 10 results))"

fun find_by_id :: "pydict list \<Rightarrow> string \<Rightarrow> pydict option" where
  "find_by_id [] item_id = None"
| "find_by_id (item # items) item_id =
     (if get item ''id'' = JStr item_id then Some item else find_by_id items item_id)"

section \<open>Format helpers\<close>


text \<open>The fenced code block of a snippet, built by the formatter and by the snippet tool.\<close>

definition code_fence :: "pydict \<Rightarrow> string" where
  "code_fence item =
     nl @ ''```'' @ str (get_or item ''language'' (JStr '''')) @ nl
        @ str (get_or item ''code'' (JStr '''')) @ nl @ ''```''"









text \<open>The lines appended for one entry of \<^verbatim>\<open>zones\<close>.\<close>

definition zone_lines :: "string \<times> json \<Rightarrow> error + string list" where
  "zone_lines zi =
     (case zi of (zone, info) \<Rightarrow>
        bind (json_get info ''available'') (\<lambda>av.
        bind (json_get info ''reason'') (\<lambda>reason.
        bind (json_get info ''requirements'') (\<lambda>reqs.
        bind (if truthy reqs
              then bind (join_json '', '' reqs) (\<lambda>r. Inr [''  Requirements: '' @ r])
              else Inr []) (\<lambda>req_lines.
        Inr ([nl @ ''**'' @ upper zone @ ''**: ''
                @ (if truthy av then ''Available'' else ''Not available'')]
             @ (if truthy reason then [''  Reason: '' @ str reason] else [])
             @ req_lines))))))"

definition format_governance_full :: "pydict \<Rightarrow> error + string" where
  "format_governance_full item =
     bind (json_items (get_or item ''zones'' (JObj []))) (\<lambda>zones.
     bind (mapM zone_lines zones) (\<lambda>zls.
     Inr (join nl
       ([''# '' @ str (get_or item ''display_name'' (get item ''feature'')),
         nl @ ''**Minimum zone required**: ''
            @ str (get_or item ''minimum_zone'' (JStr ''unknown'')),
         nl @ ''**Availability by zone**:'']
        @ concat zls
        @ (if truthy (get item ''justification_template'')
           then [nl @ ''**Justification template**:'' @ nl @ ''> ''
                   @ str (get item ''justification_template'')]
           else [])))))"

section \<open>The data store\<close>

text \<open>
  \<^verbatim>\<open>DATA\<close> is a dict from the name of a collection to its records, and a collection is a
  list of dicts (\<^verbatim>\<open>item: dict\<close>). The data directory is a map from a file name to what
  \<^verbatim>\<open>json.load\<close> gives for it; a file that does not exist loads as the empty list.
\<close>

type_synonym store = "(string \<times> pydict list) list"



definition data_get :: "store \<Rightarrow> string \<Rightarrow> pydict list" where
  "data_get DATA name = (case map_of DATA name of None \<Rightarrow> [] | Some items \<Rightarrow> items)"


section \<open>Access control\<close>

text \<open>
  A request as the middleware reads it. Header names are case-insensitive: they are
  stored in lower case and \<^verbatim>\<open>headers.get\<close> looks the lower-cased name up.
\<close>

record request =
  req_path :: string
  req_method :: string
  req_headers :: "(string \<times> string) list"

datatype response = JSONResponse nat json

definition headers_get :: "request \<Rightarrow> string \<Rightarrow> string option" where
  "headers_get req name = map_of (req_headers req) (lower name)"

definition auth_middleware ::
  "string set \<Rightarrow> request \<Rightarrow> (request \<Rightarrow> response) \<Rightarrow> response" where
  "auth_middleware API_KEYS req call_next =
     (if req_path req = ''/health'' \<or> req_method req = ''OPTIONS'' then call_next req
      else if prefix ''/mcp'' (req_path req) \<and> req_method req = ''GET'' then
        JSONResponse 200
          (JObj [(''status'', JStr ''ok''), (''server'', JStr ''MCS Best Practices MCP''),
                 (''protocol'', JStr ''mcp-streamable-1.0'')])
      else
        (case headers_get req ''X-API-Key'' of
           None \<Rightarrow>
             JSONResponse 401 (JObj [(''detail'', JStr ''Invalid or missing API key'')])
         | Some api_key \<Rightarrow>
             if api_key = [] \<or> api_key \<notin> API_KEYS
             then JSONResponse 401 (JObj [(''detail'', JStr ''Invalid or missing API key'')])
             else call_next req))"

section \<open>REST API endpoints\<close>


text \<open>
  \<^verbatim>\<open>if p: items = f(items)\<close> for an optional string parameter \<open>p\<close>: nothing is done
  when it is absent or empty.
\<close>

definition when_given :: "string option \<Rightarrow> (string \<Rightarrow> 'a \<Rightarrow> 'a) \<Rightarrow> 'a \<Rightarrow> 'a" where
  "when_given p f x = (case p of None \<Rightarrow> x | Some s \<Rightarrow> if s = [] then x else f s x)"

text \<open>\<^verbatim>\<open>[i for i in items if i.get(field) == value]\<close>.\<close>

definition filter_eq :: "string \<Rightarrow> string \<Rightarrow> pydict list \<Rightarrow> pydict list" where
  "filter_eq field v items = filter (\<lambda>i. get i field = JStr v) items"

text \<open>\<^verbatim>\<open>{"results": items[:10], "total": len(items)}\<close>.\<close>

definition envelope :: "pydict list \<Rightarrow> pydict" where
  "envelope items =
     [(''results'', JList (map JObj (take 10 items))), (''total'', JInt (int (length items)))]"

definition list_best_practices ::
  "store \<Rightarrow> string option \<Rightarrow> string option \<Rightarrow> string option \<Rightarrow> pydict" where
  "list_best_practices DATA q category difficulty =
     (let items = data_get DATA ''best_practices'';
          items = when_given category (filter_eq ''category'') items;
          items = when_given difficulty (filter_eq ''difficulty'') items;
          items = when_given q
                    (\<lambda>q items. search_items items q
                       [''title'', ''description'', ''tags'', ''rationale'']) items
      in envelope items)"



definition language_filter :: "string option \<Rightarrow> pydict list \<Rightarrow> pydict list" where
  "language_filter language items =
     (case language of
        None \<Rightarrow> items
      | Some l \<Rightarrow> if l \<noteq> [] \<and> l \<noteq> ''any'' then filter_eq ''language'' l items else items)"

definition list_snippets :: "store \<Rightarrow> string option \<Rightarrow> string option \<Rightarrow> pydict" where
  "list_snippets DATA q language =
     (let items = data_get DATA ''snippets'';
          items = language_filter language items;
          items = when_given q
                    (\<lambda>q items. search_items items q
                       [''title'', ''description'', ''tags'', ''use_case'']) items
      in envelope items)"





text \<open>
  \<^verbatim>\<open>feature.lower().replace(" ", "-").replace("_", "-")\<close>, the name the three governance
  lookups search for.
\<close>

definition feature_lower :: "string \<Rightarrow> string" where
  "feature_lower feature =
     replace_char (CHR ''_'') (CHR ''-'') (replace_char (CHR '' '') (CHR ''-'') (lower feature))"

text \<open>The two loops of \<^verbatim>\<open>get_governance\<close>; \<open>None\<close> when a loop ends without returning.\<close>

fun governance_by_feature :: "string \<Rightarrow> pydict list \<Rightarrow> error + pydict option" where
  "governance_by_feature fl [] = Inr None"
| "governance_by_feature fl (item # items) =
     (if get item ''feature'' = JStr fl then Inr (Some item)
      else bind (contains fl (get_or item ''feature'' (JStr ''''))) (\<lambda>b.
             if b then Inr (Some item) else governance_by_feature fl items))"

fun governance_by_display_name :: "string \<Rightarrow> pydict list \<Rightarrow> error + pydict option" where
  "governance_by_display_name fl [] = Inr None"
| "governance_by_display_name fl (item # items) =
     bind (json_lower (get_or item ''display_name'' (JStr ''''))) (\<lambda>name.
       if sublist fl name then Inr (Some item) else governance_by_display_name fl items)"

definition get_governance :: "store \<Rightarrow> string \<Rightarrow> error + pydict" where
  "get_governance DATA feature =
     bind (governance_by_feature (feature_lower feature) (data_get DATA ''governance''))
       (\<lambda>r. case r of
          Some item \<Rightarrow> Inr item
        | None \<Rightarrow>
            bind (governance_by_display_name (feature_lower feature)
                    (data_get DATA ''governance''))
              (\<lambda>r. case r of
                 Some item \<Rightarrow> Inr item
               | None \<Rightarrow> Inl (HTTPException 404 (''No governance info for: '' @ feature))))"

section \<open>Tools\<close>



definition snippet_entry :: "pydict \<Rightarrow> error + string list" where
  "snippet_entry item =
     bind (getitem item ''title'') (\<lambda>title.
     bind (getitem item ''id'') (\<lambda>ident.
     Inr [nl @ ''## '' @ str title,
          ''**Language**: '' @ str (get_or item ''language'' (JStr ''unknown'')),
          ''**Use case**: '' @ str (get_or item ''use_case'' (JStr '''')),
          code_fence item,
          nl @ ''**Explanation**: '' @ str (get_or item ''explanation'' (JStr '''')),
          ''Resource URI: snippet://'' @ str ident]))"

definition get_code_snippet :: "store \<Rightarrow> string \<Rightarrow> string option \<Rightarrow> error + string" where
  "get_code_snippet DATA query language =
     (let items = data_get DATA ''snippets'';
          items = language_filter language items;
          found = search_items items query [''title'', ''description'', ''use_case'', ''tags'']
      in if found = [] then Inr ''No code snippets found matching your query.''
         else bind (mapM snippet_entry (take 3 found)) (\<lambda>ls. Inr (join nl (concat ls))))"










section \<open>Resources\<close>







fun governance_exact :: "string \<Rightarrow> pydict list \<Rightarrow> pydict option" where
  "governance_exact fl [] = None"
| "governance_exact fl (item # items) =
     (if get item ''feature'' = JStr fl then Some item else governance_exact fl items)"

definition get_governance_resource :: "store \<Rightarrow> string \<Rightarrow> error + string" where
  "get_governance_resource DATA feature =
     (case governance_exact (feature_lower feature) (data_get DATA ''governance'') of
        Some item \<Rightarrow> format_governance_full item
      | None \<Rightarrow> Inr (''Governance info for '' @ [CHR 0x27] @ feature @ [CHR 0x27] @ '' not found.''))"

section \<open>Serving a sequence of calls\<close>







section \<open>The statements of the specification\<close>

text \<open>
  The score as the specification words it: one point for each queried field whose string
  value contains the query, letter case aside, and one point for each string element
  of a queried list-valued field that contains it.
\<close>

definition matches_ci :: "string \<Rightarrow> string \<Rightarrow> bool" where
  "matches_ci query s = sublist (lower query) (lower s)"

definition spec_elem_matches :: "string \<Rightarrow> json \<Rightarrow> bool" where
  "spec_elem_matches query e = (case e of JStr s \<Rightarrow> matches_ci query s | _ \<Rightarrow> False)"

definition spec_field_score :: "string \<Rightarrow> json \<Rightarrow> nat" where
  "spec_field_score query v =
     (case v of
        JStr s \<Rightarrow> if matches_ci query s then 1 else 0
      | JList vs \<Rightarrow> length (filter (spec_elem_matches query) vs)
      | _ \<Rightarrow> 0)"

definition spec_score :: "string \<Rightarrow> string list \<Rightarrow> pydict \<Rightarrow> nat" where
  "spec_score query fs item =
     sum_list (map (\<lambda>f. case map_of item f of None \<Rightarrow> 0 | Some v \<Rightarrow> spec_field_score query v) fs)"

text \<open>Eleven best practices that all match the query \<^verbatim>\<open>error\<close>.\<close>

definition eleven_practices :: "pydict list" where
  "eleven_practices =
     map (\<lambda>n. [(''id'', JStr (''bp-'' @ digits n)), (''title'', JStr ''Error handling'')])
       [1..<12]"






text \<open>The fixed reply to a request that is not authorized.\<close>

definition unauthorized :: response where
  "unauthorized = JSONResponse 401 (JObj [(''detail'', JStr ''Invalid or missing API key'')])"



















text \<open>
  A governance collection in which a record whose \<^verbatim>\<open>feature\<close> contains
  \<^verbatim>\<open>http-connector\<close> is stored before the record whose \<^verbatim>\<open>feature\<close> is that name.
\<close>

definition two_connectors :: store where
  "two_connectors =
     [(''governance'', [[(''feature'', JStr ''http-connector-v2'')],
                        [(''feature'', JStr ''http-connector'')]])]"


section \<open>Properties\<close>

lemma bind_simps [simp]: "bind (Inl e) f = Inl e" "bind (Inr v) f = f v"
  by (simp_all add: bind_def)

subsection \<open>The empty query\<close>

text \<open>
  C5. For every collection and every field set, \<^verbatim>\<open>search_items\<close> with the empty query
  returns the first \<open>min 10 (length items)\<close> records of the collection in their stored
  order: nothing is filtered and nothing is ranked.
\<close>

theorem search_items_empty_query:
  "search_items items [] fs = take 10 items
   \<and> length (search_items items [] fs) = min 10 (length items)"
  by (simp add: search_items_def min_def)

theorem search_items_empty_query_witness:
  "search_items [[(''id'', JStr ''a'')], [(''id'', JStr ''b'')]] [] [''title'']
     = [[(''id'', JStr ''a'')], [(''id'', JStr ''b'')]]"
  using search_items_empty_query [of "[[(''id'', JStr ''a'')], [(''id'', JStr ''b'')]]" "[''title'']"]
  by simp

subsection \<open>Lookup by identifier\<close>

text \<open>
  C7. For every collection and every id, \<^verbatim>\<open>find_by_id\<close> returns the first record, in
  stored order, whose \<^verbatim>\<open>id\<close> is the string given (equal character for character), and
  returns \<open>None\<close>, raising nothing, when no record has that id; on the empty collection
  it returns \<open>None\<close>.
\<close>

theorem find_by_id_first_match:
  "(case find_by_id items item_id of
      None \<Rightarrow> \<forall>item \<in> set items. get item ''id'' \<noteq> JStr item_id
    | Some r \<Rightarrow>
        \<exists>k < length items. items ! k = r \<and> get r ''id'' = JStr item_id
          \<and> (\<forall>j < k. get (items ! j) ''id'' \<noteq> JStr item_id))
   \<and> find_by_id [] item_id = None"
proof (induction items)
  case Nil
  then show ?case by simp
next
  case (Cons item items)
  show ?case
  proof (cases "get item ''id'' = JStr item_id")
    case True
    then show ?thesis by auto
  next
    case False
    show ?thesis
    proof (cases "find_by_id items item_id")
      case None
      with Cons False show ?thesis by simp
    next
      case (Some r)
      with Cons obtain k where k: "k < length items" "items ! k = r" "get r ''id'' = JStr item_id"
        "\<forall>j < k. get (items ! j) ''id'' \<noteq> JStr item_id" by auto
      have "\<forall>j < Suc k. get ((item # items) ! j) ''id'' \<noteq> JStr item_id"
        using False k(4) by (auto simp: less_Suc_eq_0_disj)
      with k have "Suc k < length (item # items) \<and> (item # items) ! Suc k = r
          \<and> get r ''id'' = JStr item_id
          \<and> (\<forall>j < Suc k. get ((item # items) ! j) ''id'' \<noteq> JStr item_id)" by simp
      then have "\<exists>k < length (item # items). (item # items) ! k = r \<and> get r ''id'' = JStr item_id
          \<and> (\<forall>j < k. get ((item # items) ! j) ''id'' \<noteq> JStr item_id)" by blast
      with Some False show ?thesis by simp
    qed
  qed
qed

theorem find_by_id_first_match_witness:
  "find_by_id
     [[(''id'', JStr ''BP-002'')],
      [(''id'', JStr ''bp-002''), (''title'', JStr ''first'')],
      [(''id'', JStr ''bp-002''), (''title'', JStr ''second'')]] ''bp-002''
     = Some [(''id'', JStr ''bp-002''), (''title'', JStr ''first'')]
   \<and> get [(''id'', JStr ''BP-002'')] ''id'' \<noteq> JStr ''bp-002''
   \<and> find_by_id [[(''id'', JStr ''bp-001'')]] ''bp-999'' = None"
  using find_by_id_first_match
    [of "[[(''id'', JStr ''BP-002'')],
          [(''id'', JStr ''bp-002''), (''title'', JStr ''first'')],
          [(''id'', JStr ''bp-002''), (''title'', JStr ''second'')]]" "''bp-002''"]
  by (simp add: get_def)

subsection \<open>The language filter\<close>

text \<open>
  C8. For every query, the snippets listing and the snippet tool called with
  \<^verbatim>\<open>language='any'\<close> return what they return with no language filter at all: \<^verbatim>\<open>any\<close> is
  not compared with the \<^verbatim>\<open>language\<close> of a record.
\<close>

theorem language_any_is_no_filter:
  "list_snippets DATA q (Some ''any'') = list_snippets DATA q None
   \<and> get_code_snippet DATA query (Some ''any'') = get_code_snippet DATA query None"
  by (simp add: list_snippets_def get_code_snippet_def language_filter_def)

theorem language_any_is_no_filter_witness:
  "list_snippets
     [(''snippets'', [[(''id'', JStr ''s1''), (''language'', JStr ''yaml'')],
                      [(''id'', JStr ''s2''), (''language'', JStr ''any'')]])]
     None (Some ''any'')
   = [(''results'', JList [JObj [(''id'', JStr ''s1''), (''language'', JStr ''yaml'')],
                           JObj [(''id'', JStr ''s2''), (''language'', JStr ''any'')]]),
      (''total'', JInt 2)]"
  using language_any_is_no_filter
    [of "[(''snippets'', [[(''id'', JStr ''s1''), (''language'', JStr ''yaml'')],
                          [(''id'', JStr ''s2''), (''language'', JStr ''any'')]])]" None]
  by (simp add: list_snippets_def language_filter_def when_given_def envelope_def data_get_def)

subsection \<open>Ranked search\<close>

lemma score_elems_eq:
  "score_elems (lower query) vs score = score + length (filter (spec_elem_matches query) vs)"
  by (induction vs arbitrary: score)
     (auto simp: spec_elem_matches_def matches_ci_def split: json.splits)

lemma score_fields_eq:
  "query \<noteq> [] \<Longrightarrow>
   score_fields (lower query) item fs score = score + spec_score query fs item"
proof (induction fs arbitrary: score)
  case Nil
  then show ?case by (simp add: spec_score_def)
next
  case (Cons f fs)
  from Cons.prems have nonempty: "lower query \<noteq> []" by (simp add: lower_def)
  show ?case
  proof (cases "map_of item f")
    case None
    with Cons nonempty show ?thesis
      by (simp add: get_or_def spec_score_def lower_def)
  next
    case (Some v)
    with Cons show ?thesis
      by (cases v)
         (simp_all add: get_or_def spec_score_def spec_field_score_def matches_ci_def
            score_elems_eq)
  qed
qed

lemma score_items_eq:
  "query \<noteq> [] \<Longrightarrow>
   score_items (lower query) fs items acc =
     acc @ map (\<lambda>i. (spec_score query fs i, i)) (filter (\<lambda>i. 0 < spec_score query fs i) items)"
  by (induction items arbitrary: acc) (simp_all add: score_fields_eq Let_def)

lemma sort_reverse_set: "set (sort_reverse xs) = set xs"
  by (simp add: sort_reverse_def)

lemma sort_reverse_sorted: "sorted_wrt (\<lambda>a b. fst b \<le> fst a) (sort_reverse xs)"
proof -
  have "sorted (map fst (sort_key fst (rev xs)))" by (rule sorted_sort_key)
  then have "sorted_wrt (\<lambda>a b. fst a \<le> fst b) (sort_key fst (rev xs))"
    by (simp add: sorted_map)
  then show ?thesis by (simp add: sort_reverse_def sorted_wrt_rev)
qed

lemma sort_reverse_stable:
  "filter (\<lambda>x. fst x = n) (sort_reverse xs) = filter (\<lambda>x. fst x = n) xs"
proof -
  have "filter (\<lambda>x. fst x = n) (sort_reverse xs)
          = rev (filter (\<lambda>x. fst x = n) (sort_key fst (rev xs)))"
    by (simp add: sort_reverse_def rev_filter)
  also have "\<dots> = rev (filter (\<lambda>x. fst x = n) (rev xs))"
    by (simp only: sort_key_stable)
  also have "\<dots> = filter (\<lambda>x. fst x = n) xs"
    by (simp add: rev_filter)
  finally show ?thesis .
qed

text \<open>
  C6. For every non-empty query, \<^verbatim>\<open>search_items\<close> lower-cases the query and scores each
  record: one point for each queried field whose string value contains the query without
  regard to case, one point for each string element of a queried list-valued field that
  contains it. The records of score 0 are dropped; the others are put in descending order
  of score, records of equal score staying in their stored order; the first 10 of that
  list are returned.
\<close>

theorem search_items_ranked:
  assumes "query \<noteq> []"
  shows "\<exists>ranked.
           search_items items query fs = take 10 ranked
         \<and> sorted_wrt (\<lambda>a b. spec_score query fs b \<le> spec_score query fs a) ranked
         \<and> (\<forall>r \<in> set ranked. 0 < spec_score query fs r)
         \<and> (\<forall>n. 0 < n \<longrightarrow>
               filter (\<lambda>r. spec_score query fs r = n) ranked
                 = filter (\<lambda>r. spec_score query fs r = n) items)"
proof -
  define scored where
    "scored = map (\<lambda>i. (spec_score query fs i, i)) (filter (\<lambda>i. 0 < spec_score query fs i) items)"
  define ranked where "ranked = map snd (sort_reverse scored)"
  have fst_snd: "fst x = spec_score query fs (snd x) \<and> 0 < fst x" if "x \<in> set (sort_reverse scored)" for x
    using that by (auto simp: sort_reverse_set scored_def)
  have result: "search_items items query fs = take 10 ranked"
    using assms by (simp add: search_items_def score_items_eq scored_def ranked_def take_map)
  have "sorted_wrt (\<lambda>a b. fst b \<le> fst a) (sort_reverse scored)"
    by (rule sort_reverse_sorted)
  then have "sorted_wrt (\<lambda>a b. spec_score query fs (snd b) \<le> spec_score query fs (snd a))
               (sort_reverse scored)"
    by (rule sorted_wrt_mono_rel [rotated]) (simp add: fst_snd)
  then have sorted: "sorted_wrt (\<lambda>a b. spec_score query fs b \<le> spec_score query fs a) ranked"
    by (simp add: ranked_def sorted_wrt_map)
  have positive: "\<forall>r \<in> set ranked. 0 < spec_score query fs r"
    using fst_snd by (auto simp: ranked_def)
  have stable: "filter (\<lambda>r. spec_score query fs r = n) ranked
                  = filter (\<lambda>r. spec_score query fs r = n) items" if "0 < n" for n
  proof -
    have "filter (\<lambda>r. spec_score query fs r = n) ranked
            = map snd (filter (\<lambda>x. spec_score query fs (snd x) = n) (sort_reverse scored))"
      by (simp add: ranked_def filter_map comp_def)
    also have "filter (\<lambda>x. spec_score query fs (snd x) = n) (sort_reverse scored)
                 = filter (\<lambda>x. fst x = n) (sort_reverse scored)"
      by (rule filter_cong) (simp_all add: fst_snd)
    also have "\<dots> = filter (\<lambda>x. fst x = n) scored"
      by (rule sort_reverse_stable)
    also have "map snd (filter (\<lambda>x. fst x = n) scored)
                 = filter (\<lambda>r. spec_score query fs r = n) items"
      using that by (simp add: scored_def filter_map comp_def conj_commute cong: conj_cong)
    finally show ?thesis .
  qed
  from result sorted positive stable show ?thesis by blast
qed

theorem search_items_ranked_witness:
  "''eRRor'' \<noteq> []
   \<and> (\<exists>ranked.
         search_items
           [[(''title'', JStr ''Variables''), (''description'', JStr ''Use variables'')],
            [(''title'', JStr ''Errors''), (''tags'', JList [JStr ''x'', JInt 3])],
            [(''title'', JStr ''Error handling''), (''description'', JStr ''Handle errors'')]]
           ''eRRor'' [''title'', ''description'', ''tags''] = take 10 ranked
       \<and> sorted_wrt (\<lambda>a b. spec_score ''eRRor'' [''title'', ''description'', ''tags''] b
                              \<le> spec_score ''eRRor'' [''title'', ''description'', ''tags''] a) ranked)"
  using search_items_ranked [of "''eRRor''"
    "[[(''title'', JStr ''Variables''), (''description'', JStr ''Use variables'')],
      [(''title'', JStr ''Errors''), (''tags'', JList [JStr ''x'', JInt 3])],
      [(''title'', JStr ''Error handling''), (''description'', JStr ''Handle errors'')]]"
    "[''title'', ''description'', ''tags'']"]
  by blast

subsection \<open>The total of a listing\<close>

lemma search_items_length:
  assumes "query \<noteq> []"
  shows "length (search_items items query fs)
           = min 10 (length (filter (\<lambda>i. 0 < spec_score query fs i) items))"
  using assms by (simp add: search_items_def score_items_eq sort_reverse_def)

lemma total_with_query:
  assumes "q \<noteq> []"
  shows "get (list_best_practices DATA (Some q) None None) ''total''
           = JInt (int (min 10 (length (filter
               (\<lambda>i. 0 < spec_score q [''title'', ''description'', ''tags'', ''rationale''] i)
               (data_get DATA ''best_practices'')))))"
  using assms
  by (simp add: list_best_practices_def when_given_def envelope_def get_def search_items_length Let_def)

text \<open>
  C1. The claim: on the list endpoints, with a non-empty query, \<^verbatim>\<open>total\<close> is the number
  of records that pass the filters and match the query, counted before the cap of 10.
  The listing of best practices over eleven records that all match \<^verbatim>\<open>error\<close> reports
  a total of 10, the length of what \<^verbatim>\<open>search_items\<close> has already cut; without a query
  the same endpoint reports 11.
\<close>

theorem list_best_practices_total_capped:
  "get (list_best_practices [(''best_practices'', eleven_practices)] (Some ''error'') None None)
     ''total'' = JInt 10
   \<and> length (filter
        (\<lambda>i. 0 < spec_score ''error'' [''title'', ''description'', ''tags'', ''rationale''] i)
        eleven_practices) = 11
   \<and> get (list_best_practices [(''best_practices'', eleven_practices)] None None None)
       ''total'' = JInt 11"
  by code_simp

subsection \<open>Governance lookup by feature\<close>



text \<open>
  C2. The claim: the endpoint normalizes the requested name and chooses a record by
  strict priority, an exact match on \<^verbatim>\<open>feature\<close> before any record whose \<^verbatim>\<open>feature\<close>
  merely contains the name, that one before any record whose \<^verbatim>\<open>display_name\<close> contains
  it, and a 404 error when none matches. The first loop of the endpoint has no exact
  tier: it returns at the first record whose \<^verbatim>\<open>feature\<close> equals or contains the name.
  On a store that holds \<^verbatim>\<open>http-connector-v2\<close> before \<^verbatim>\<open>http-connector\<close>, the request for
  \<^verbatim>\<open>http-connector\<close> is answered with \<^verbatim>\<open>http-connector-v2\<close>, while the governance
  resource answers the same request with the exact record.
\<close>

theorem get_governance_exact_not_first:
  "feature_lower ''http-connector'' = ''http-connector''
   \<and> get_governance two_connectors ''http-connector''
       = Inr [(''feature'', JStr ''http-connector-v2'')]
   \<and> get_governance two_connectors ''HTTP Connector''
       = Inr [(''feature'', JStr ''http-connector-v2'')]
   \<and> get_governance_resource two_connectors ''http-connector''
       = format_governance_full [(''feature'', JStr ''http-connector'')]"
  by code_simp

subsection \<open>Access control\<close>

text \<open>
  C4, as the code has it. A request whose \<^verbatim>\<open>X-API-Key\<close> header is missing or not in the
  allow-list, whose path is not \<^verbatim>\<open>/health\<close>, whose method is not \<^verbatim>\<open>OPTIONS\<close> and which is
  not a \<^verbatim>\<open>GET\<close> under \<^verbatim>\<open>/mcp\<close>, gets the fixed 401 reply whatever the rest of the
  application is: \<^verbatim>\<open>call_next\<close> has no part in the reply.
\<close>

theorem auth_middleware_rejects:
  assumes "case headers_get req ''X-API-Key'' of None \<Rightarrow> True | Some api_key \<Rightarrow> api_key \<notin> API_KEYS"
    and "req_path req \<noteq> ''/health''"
    and "req_method req \<noteq> ''OPTIONS''"
    and "\<not> (prefix ''/mcp'' (req_path req) \<and> req_method req = ''GET'')"
  shows "auth_middleware API_KEYS req call_next = unauthorized"
  using assms by (auto simp: auth_middleware_def unauthorized_def split: option.splits)

theorem auth_middleware_rejects_witness:
  "auth_middleware {''mcs-bootcamp-2025''}
     \<lparr>req_path = ''/api/v1/best-practices'', req_method = ''GET'',
      req_headers = [(''x-api-key'', ''wrong'')]\<rparr>
     (\<lambda>r. JSONResponse 200 JNull)
   = JSONResponse 401 (JObj [(''detail'', JStr ''Invalid or missing API key'')])"
  using auth_middleware_rejects
    [where req = "\<lparr>req_path = ''/api/v1/best-practices'', req_method = ''GET'',
          req_headers = [(''x-api-key'', ''wrong'')]\<rparr>"
       and API_KEYS = "{''mcs-bootcamp-2025''}"
       and call_next = "\<lambda>r. JSONResponse 200 JNull"]
  by (simp add: headers_get_def lower_def char_lower_def unauthorized_def)

text \<open>
  C4 as claimed fails: an \<^verbatim>\<open>OPTIONS\<close> request without a key is passed on to the
  application, and a \<^verbatim>\<open>GET\<close> under \<^verbatim>\<open>/mcp\<close> without a key gets the fixed probe reply
  with status 200.
\<close>

theorem auth_middleware_forwards_options:
  "auth_middleware {''mcs-bootcamp-2025''}
     \<lparr>req_path = ''/api/v1/tips'', req_method = ''OPTIONS'', req_headers = []\<rparr>
     (\<lambda>r. JSONResponse 200 (JStr ''handled''))
   = JSONResponse 200 (JStr ''handled'')
   \<and> headers_get \<lparr>req_path = ''/api/v1/tips'', req_method = ''OPTIONS'', req_headers = []\<rparr>
         ''X-API-Key'' = None
   \<and> auth_middleware {''mcs-bootcamp-2025''}
     \<lparr>req_path = ''/mcp'', req_method = ''GET'', req_headers = []\<rparr>
     (\<lambda>r. JSONResponse 200 (JStr ''handled''))
   = JSONResponse 200
          (JObj [(''status'', JStr ''ok''), (''server'', JStr ''MCS Best Practices MCP''),
                 (''protocol'', JStr ''mcp-streamable-1.0'')])"
  by (simp add: auth_middleware_def headers_get_def)

subsection \<open>The formatters\<close>


















lemma get_append:
  "map_of d k = None \<Longrightarrow> get (item @ d) k = get item k"
  by (simp add: get_def map_add_def split: option.splits)















subsection \<open>The store is read only\<close>







subsection \<open>The governance resource\<close>











end
